theory Spec2Isabelle
  imports Complex_Main "HOL-Library.Word"
begin

section \<open>JavaScript values used by server.js\<close>

text \<open>
  A JavaScript string is a sequence of UTF-16 code units; \<open>.length\<close> counts code units.
  Text that server.js writes as a literal is ASCII and is kept as an Isabelle \<open>string\<close>;
  \<open>ascii\<close> embeds such a literal into a JavaScript string where the source splices it
  with request data.
\<close>

type_synonym jsstring = "16 word list"

definition ascii :: "string \<Rightarrow> jsstring" where
  "ascii cs = map (\<lambda>c. word_of_nat (of_char c)) cs"

text \<open>
  The code units that \<open>String.prototype.trim\<close> strips: ECMAScript WhiteSpace (TAB, VT, FF,
  SP, NBSP, ZWNBSP and the Unicode category Zs) and LineTerminator (LF, CR, LS, PS).
\<close>

definition isWhiteSpace :: "16 word \<Rightarrow> bool" where
  "isWhiteSpace c \<longleftrightarrow>
     c = 0x0009 \<or> c = 0x000A \<or> c = 0x000B \<or> c = 0x000C \<or> c = 0x000D \<or> c = 0x0020 \<or>
     c = 0x00A0 \<or> c = 0x1680 \<or> (0x2000 \<le> c \<and> c \<le> 0x200A) \<or> c = 0x2028 \<or> c = 0x2029 \<or>
     c = 0x202F \<or> c = 0x205F \<or> c = 0x3000 \<or> c = 0xFEFF"

definition trim :: "jsstring \<Rightarrow> jsstring" where
  "trim s = rev (dropWhile isWhiteSpace (rev (dropWhile isWhiteSpace s)))"

text \<open>
  A value parsed from JSON. \<open>JSON.parse\<close> yields finite numbers only, each of them a
  rational. An object is the list of its properties; a property that is not listed reads
  as \<open>undefined\<close>, which is \<open>None\<close> wherever a value may be absent.
\<close>

datatype json =
    JNull
  | JBool bool
  | JNum rat
  | JStr jsstring
  | JArr "json list"
  | JObj "(jsstring \<times> json) list"

text \<open>JavaScript truthiness (ToBoolean); \<open>None\<close> is \<open>undefined\<close>.\<close>

fun truthy :: "json option \<Rightarrow> bool" where
  "truthy None = False"
| "truthy (Some JNull) = False"
| "truthy (Some (JBool b)) = b"
| "truthy (Some (JNum n)) = (n \<noteq> 0)"
| "truthy (Some (JStr s)) = (s \<noteq> [])"
| "truthy (Some (JArr _)) = True"
| "truthy (Some (JObj _)) = True"

text \<open>Truthiness of a value that is a string or \<open>undefined\<close>.\<close>

definition truthyStr :: "jsstring option \<Rightarrow> bool" where
  "truthyStr v = (case v of None \<Rightarrow> False | Some s \<Rightarrow> s \<noteq> [])"

text \<open>
  Reading property \<open>name\<close> of a value, as \<open>v.name\<close> or a destructuring pattern does for the
  names server.js uses (\<open>query\<close>, \<open>full_name\<close>): only an object can carry them.
\<close>

fun getProp :: "json \<Rightarrow> string \<Rightarrow> json option" where
  "getProp (JObj kvs) name = map_of kvs (ascii name)"
| "getProp _ name = None"

section \<open>Rate limiter (server.js lines 35-58)\<close>

definition MAX_QUERY_LENGTH :: nat where
  "MAX_QUERY_LENGTH = 500"

definition RATE_LIMIT_WINDOW_MS :: int where
  "RATE_LIMIT_WINDOW_MS = 60 * 1000"

definition RATE_LIMIT_MAX_REQUESTS :: nat where
  "RATE_LIMIT_MAX_REQUESTS = 30"

record entry =
  windowStart :: int
  count :: nat

text \<open>\<open>rateLimitStore\<close>, a \<open>Map\<close> from client address to its window.\<close>

type_synonym store = "jsstring \<rightharpoonup> entry"

text \<open>
  \<open>isRateLimited ip\<close>, with the value of \<open>Date.now()\<close> (integer milliseconds) and the
  store passed in; the result is the returned flag and the store after the call. The
  source increments the entry object held by the map in place.
\<close>

definition isRateLimited :: "int \<Rightarrow> jsstring \<Rightarrow> store \<Rightarrow> bool \<times> store" where
  "isRateLimited now ip st =
     (case st ip of
        None \<Rightarrow> (False, st(ip \<mapsto> \<lparr>windowStart = now, count = 1\<rparr>))
      | Some e \<Rightarrow>
          if now - windowStart e > RATE_LIMIT_WINDOW_MS
          then (False, st(ip \<mapsto> \<lparr>windowStart = now, count = 1\<rparr>))
          else
            let e' = e\<lparr>count := count e + 1\<rparr>
            in (if count e' > RATE_LIMIT_MAX_REQUESTS then True else False, st(ip \<mapsto> e')))"

text \<open>
  A sequence of calls \<open>(ip, now)\<close> to the rate-limit check, in program order, from several
  clients; \<open>answers\<close> is the list of flags returned.
\<close>

fun answers :: "store \<Rightarrow> (jsstring \<times> int) list \<Rightarrow> bool list" where
  "answers st [] = []"
| "answers st ((ip, now) # cs) =
     (let (limited, st') = isRateLimited now ip st in limited # answers st' cs)"

text \<open>The flags that the calls of client \<open>ip\<close> got, in order.\<close>

definition answersFor :: "jsstring \<Rightarrow> store \<Rightarrow> (jsstring \<times> int) list \<Rightarrow> bool list" where
  "answersFor ip st cs = map snd (filter (\<lambda>(c, limited). fst c = ip) (zip cs (answers st cs)))"

text \<open>No window for \<open>ip\<close>, or one that has expired at time \<open>now\<close>.\<close>

definition freshOrExpired :: "store \<Rightarrow> jsstring \<Rightarrow> int \<Rightarrow> bool" where
  "freshOrExpired st ip now =
     (case st ip of None \<Rightarrow> True | Some e \<Rightarrow> now - windowStart e > RATE_LIMIT_WINDOW_MS)"

section \<open>Request, collaborators and response\<close>

text \<open>What the handler reads of the request; \<open>None\<close> is \<open>undefined\<close>.\<close>

record request =
  hdr_x_forwarded_for :: "jsstring option"
  hdr_authorization :: "jsstring option"
  req_ip :: "jsstring option"
  req_body :: "json option"

text \<open>\<open>supabaseUrl\<close> and \<open>supabaseAnonKey\<close>, read from the environment at start-up.\<close>

record config =
  supabaseUrl :: "jsstring option"
  supabaseAnonKey :: "jsstring option"

text \<open>
  The Supabase client is an external collaborator. Its calls resolve to a reply object
  that carries a failure in its \<open>error\<close> property (\<open>None\<close> is \<open>null\<close>); the model takes
  the replies of one request as functions of the arguments the handler passes.
\<close>

datatype sbError = SbError (message: jsstring)

record user =
  user_id :: jsstring
  user_metadata :: "json option"

record profilePayload =
  p_id :: jsstring
  p_full_name :: json

record resource =
  r_id :: json
  r_title :: json
  r_description :: json
  r_type :: json
  storage_path :: jsstring

record resourceWithLink =
  l_id :: json
  l_title :: json
  l_description :: json
  l_type :: json
  url :: jsstring

record client =
  auth_getUser :: "user option \<times> sbError option"
  profiles_upsert :: "profilePayload \<Rightarrow> sbError option"
  resources_select :: "jsstring \<Rightarrow> nat \<Rightarrow> resource list option \<times> sbError option"
  queries_insert :: "jsstring \<Rightarrow> jsstring \<Rightarrow> sbError option"
  storage_getPublicUrl :: "jsstring \<Rightarrow> jsstring"

text \<open>
  \<open>createClient(url, key, options)\<close>; the third argument is the Authorization header of
  \<open>options.global.headers\<close>, \<open>None\<close> when \<open>global\<close> is \<open>undefined\<close>.
\<close>

type_synonym createClient = "jsstring option \<Rightarrow> jsstring option \<Rightarrow> jsstring option \<Rightarrow> client"

text \<open>The calls the handler makes on the client, in the order it issues them.\<close>

datatype effect =
    GetUser
  | ProfilesUpsert profilePayload
  | ResourcesSelect jsstring nat
  | QueriesInsert jsstring jsstring
  | GetPublicUrl jsstring

datatype body =
    ErrorBody (error: string) (details: "jsstring option")
  | AnswerBody (requestId: jsstring) (answer: jsstring) (resources: "resourceWithLink list")
  | ErrorPage

text \<open>
  The response as server.js shapes it: the status, the headers it sets itself and the
  JSON body. \<open>res.json\<close> without \<open>res.status\<close> answers 200. \<open>ErrorPage\<close> is the HTML page
  of Express's error handler, which no code of server.js writes.
\<close>

record response =
  status :: nat
  headers :: "(string \<times> jsstring) list"
  body :: body

record outcome =
  resp :: response
  store_after :: store
  effects :: "effect list"

section \<open>The handler of POST /ask-jiji (server.js lines 30-33, 40-41, 60-167)\<close>

definition buildSupabaseClient :: "createClient \<Rightarrow> config \<Rightarrow> jsstring option \<Rightarrow> client" where
  "buildSupabaseClient create cfg authHeader =
     create (supabaseUrl cfg) (supabaseAnonKey cfg)
       (if truthyStr authHeader then authHeader else None)"

text \<open>
  \<open>req.headers["x-forwarded-for"]?.split(",")[0]?.trim() || req.ip\<close>: the text before the
  first comma (code unit 0x2C) of the header, trimmed, or else the peer address.
\<close>

definition getClientIp :: "request \<Rightarrow> jsstring option" where
  "getClientIp req =
     (let forwarded = map_option (\<lambda>h. trim (takeWhile (\<lambda>c. c \<noteq> 0x2C) h)) (hdr_x_forwarded_for req)
      in if truthyStr forwarded then forwarded else req_ip req)"

text \<open>\<open>clientIp && isRateLimited(clientIp)\<close>: the check runs only for a truthy key.\<close>

definition rateCheck :: "int \<Rightarrow> jsstring option \<Rightarrow> store \<Rightarrow> bool \<times> store" where
  "rateCheck now clientIp st =
     (case clientIp of
        None \<Rightarrow> (False, st)
      | Some a \<Rightarrow> if a \<noteq> [] then isRateLimited now a st else (False, st))"

text \<open>\<open>const { query } = req.body || {}\<close>.\<close>

definition queryOf :: "request \<Rightarrow> json option" where
  "queryOf req =
     (case req_body req of
        None \<Rightarrow> None
      | Some b \<Rightarrow> if truthy (Some b) then getProp b ''query'' else None)"

fun typeof :: "json option \<Rightarrow> string" where
  "typeof None = ''undefined''"
| "typeof (Some JNull) = ''object''"
| "typeof (Some (JBool _)) = ''boolean''"
| "typeof (Some (JNum _)) = ''number''"
| "typeof (Some (JStr _)) = ''string''"
| "typeof (Some (JArr _)) = ''object''"
| "typeof (Some (JObj _)) = ''object''"

text \<open>
  Lines 71-83: the two validation gates. \<open>Inl\<close> is the \<open>error\<close> text of the 400 response,
  \<open>Inr\<close> is \<open>trimmedQuery\<close>. The second message is the source's template with
  \<open>MAX_QUERY_LENGTH\<close> spliced in. The last case cannot be reached: a value whose
  \<open>typeof\<close> is \<open>string\<close> is a string.
\<close>

definition validate :: "json option \<Rightarrow> string + jsstring" where
  "validate query =
     (if \<not> truthy query \<or> typeof query \<noteq> ''string''
      then Inl ''Query must be a non-empty string.''
      else case query of
        Some (JStr s) \<Rightarrow>
          (let trimmedQuery = trim s
           in if length trimmedQuery < 3 \<or> length trimmedQuery > MAX_QUERY_LENGTH
              then Inl ''Query must be between 3 and 500 characters.''
              else Inr trimmedQuery)
      | _ \<Rightarrow> Inl ''Query must be a non-empty string.'')"

text \<open>Lines 105-108: \<open>user.user_metadata?.full_name || null\<close>.\<close>

definition mkProfilePayload :: "user \<Rightarrow> profilePayload" where
  "mkProfilePayload u =
     \<lparr>p_id = user_id u,
      p_full_name =
        (case (case user_metadata u of None \<Rightarrow> None | Some m \<Rightarrow> getProp m ''full_name'') of
           None \<Rightarrow> JNull
         | Some v \<Rightarrow> if truthy (Some v) then v else JNull)\<rparr>"

text \<open>The argument of \<open>.or(...)\<close> on line 116.\<close>

definition searchFilter :: "jsstring \<Rightarrow> jsstring" where
  "searchFilter trimmedQuery =
     ascii ''title.ilike.%'' @ trimmedQuery @ ascii ''%,description.ilike.%'' @ trimmedQuery @ ascii ''%''"

text \<open>Line 146.\<close>

definition responseText :: "jsstring \<Rightarrow> jsstring" where
  \<open>responseText trimmedQuery =
     ascii ''Here's a quick overview for: "'' @ trimmedQuery @
     ascii ''". Review the resources below for deeper learning.''\<close>

text \<open>Lines 148-160.\<close>

definition resourcesWithLinks :: "client \<Rightarrow> resource list \<Rightarrow> resourceWithLink list" where
  "resourcesWithLinks supabase rs =
     map (\<lambda>r. \<lparr>l_id = r_id r, l_title = r_title r, l_description = r_description r,
               l_type = r_type r, url = storage_getPublicUrl supabase (storage_path r)\<rparr>) rs"

definition failure :: "nat \<Rightarrow> jsstring \<Rightarrow> string \<Rightarrow> jsstring option \<Rightarrow> response" where
  "failure code rid msg det =
     \<lparr>status = code, headers = [(''X-Request-Id'', rid)], body = ErrorBody msg det\<rparr>"

text \<open>
  Lines 105-166, for the verified user \<open>u\<close>: the response and the calls issued. Both
  calls of \<open>Promise.all\<close> are issued, the upsert first, and both replies are awaited
  before either is inspected.
\<close>

definition fetchAndAnswer ::
  "client \<Rightarrow> jsstring \<Rightarrow> user \<Rightarrow> jsstring \<Rightarrow> response \<times> effect list" where
  "fetchAndAnswer supabase rid u trimmedQuery =
     (let payload = mkProfilePayload u;
          profileError = profiles_upsert supabase payload;
          (found, resourceError) = resources_select supabase (searchFilter trimmedQuery) 5;
          issued = [ProfilesUpsert payload, ResourcesSelect (searchFilter trimmedQuery) 5]
      in case profileError of
           Some e \<Rightarrow> (failure 500 rid ''Failed to sync profile.'' (Some (message e)), issued)
         | None \<Rightarrow>
        (case resourceError of
           Some e \<Rightarrow> (failure 500 rid ''Failed to fetch resources.'' (Some (message e)), issued)
         | None \<Rightarrow>
        (case queries_insert supabase (user_id u) trimmedQuery of
           Some e \<Rightarrow>
             (failure 500 rid ''Failed to save query.'' (Some (message e)),
              issued @ [QueriesInsert (user_id u) trimmedQuery])
         | None \<Rightarrow>
             (let rs = (case found of None \<Rightarrow> [] | Some l \<Rightarrow> l)
              in (\<lparr>status = 200, headers = [(''X-Request-Id'', rid)],
                   body = AnswerBody rid (responseText trimmedQuery) (resourcesWithLinks supabase rs)\<rparr>,
                  issued @ [QueriesInsert (user_id u) trimmedQuery] @
                  map (\<lambda>r. GetPublicUrl (storage_path r)) rs)))))"

text \<open>
  The handler. \<open>rid\<close> is the value of \<open>crypto.randomUUID()\<close> and \<open>now\<close> that of
  \<open>Date.now()\<close> for this request. The store is touched only before the first \<open>await\<close>,
  so \<open>store_after\<close> is the store this request leaves behind.
\<close>

definition askJiji ::
  "config \<Rightarrow> createClient \<Rightarrow> jsstring \<Rightarrow> int \<Rightarrow> request \<Rightarrow> store \<Rightarrow> outcome" where
  "askJiji cfg create rid now req st =
     (let (limited, st') = rateCheck now (getClientIp req) st
      in if limited
         then \<lparr>resp = failure 429 rid ''Too many requests. Please retry later.'' None,
               store_after = st', effects = []\<rparr>
         else
        (case validate (queryOf req) of
           Inl msg \<Rightarrow> \<lparr>resp = failure 400 rid msg None, store_after = st', effects = []\<rparr>
         | Inr trimmedQuery \<Rightarrow>
        (if \<not> truthyStr (supabaseUrl cfg) \<or> \<not> truthyStr (supabaseAnonKey cfg)
         then \<lparr>resp = failure 500 rid
                 ''Server misconfiguration. Missing Supabase environment variables.'' None,
               store_after = st', effects = []\<rparr>
         else
           (let supabase = buildSupabaseClient create cfg (hdr_authorization req);
                (usr, authError) = auth_getUser supabase
            in case (authError, usr) of
                 (None, Some v) \<Rightarrow>
                   (let (r, es) = fetchAndAnswer supabase rid v trimmedQuery
                    in \<lparr>resp = r, store_after = st', effects = GetUser # es\<rparr>)
               | _ \<Rightarrow>
                   \<lparr>resp = failure 401 rid
                      ''Unauthorized. Provide a valid Supabase JWT in the Authorization header.''
                      None,
                    store_after = st', effects = [GetUser]\<rparr>))))"

section \<open>The route (server.js lines 14-16, 60)\<close>

text \<open>
  \<open>app.use(express.json({ limit: "100kb" }))\<close> on line 15 puts the JSON body parser in
  front of the route. The parser is library code, so what it makes of a request is taken
  as given: either it hands the request on with \<open>req.body\<close> set, or it fails with a
  status (400 for a body that does not parse as a JSON object or array, 413 for one over
  the limit). On a failure Express's own error handler answers with that status and an
  HTML page, and the handler passed to \<open>app.post\<close> is not called, so nothing in server.js
  sets a header on that response.
\<close>

datatype arrival =
    Delivered request
  | BodyRejected nat

definition postAskJiji ::
  "config \<Rightarrow> createClient \<Rightarrow> jsstring \<Rightarrow> int \<Rightarrow> arrival \<Rightarrow> store \<Rightarrow> outcome" where
  "postAskJiji cfg create rid now arr st =
     (case arr of
        BodyRejected code \<Rightarrow>
          \<lparr>resp = \<lparr>status = code, headers = [], body = ErrorPage\<rparr>, store_after = st, effects = []\<rparr>
      | Delivered req \<Rightarrow> askJiji cfg create rid now req st)"

section \<open>Sample inputs\<close>

text \<open>
  A configured server, a client whose replies are given, and a request from peer address
  \<open>"1"\<close> that carries \<open>{query: q}\<close>; the results below are run on them.
\<close>

definition sampleConfig :: config where
  "sampleConfig = \<lparr>supabaseUrl = Some [0x75], supabaseAnonKey = Some [0x6B]\<rparr>"

definition sampleUser :: user where
  "sampleUser = \<lparr>user_id = [0x55], user_metadata = None\<rparr>"

definition sampleResource :: resource where
  "sampleResource =
     \<lparr>r_id = JStr [0x37], r_title = JStr [0x52, 0x41, 0x47], r_description = JNull,
      r_type = JStr [0x70, 0x70, 0x74], storage_path = [0x61, 0x2E, 0x62]\<rparr>"

definition sampleClient ::
  "user option \<times> sbError option \<Rightarrow> sbError option \<Rightarrow> resource list option \<times> sbError option \<Rightarrow>
   sbError option \<Rightarrow> client" where
  "sampleClient authReply profileError searchReply insertError =
     \<lparr>auth_getUser = authReply,
      profiles_upsert = (\<lambda>_. profileError),
      resources_select = (\<lambda>_ _. searchReply),
      queries_insert = (\<lambda>_ _. insertError),
      storage_getPublicUrl = (\<lambda>p. 0x2F # p)\<rparr>"

text \<open>
  A backend that verifies exactly the Authorization header \<open>"t"\<close>, as the user above.
\<close>

definition sampleCreate ::
  "sbError option \<Rightarrow> resource list option \<times> sbError option \<Rightarrow> sbError option \<Rightarrow> createClient" where
  "sampleCreate profileError searchReply insertError =
     (\<lambda>u k authHeader.
        sampleClient
          (if authHeader = Some [0x74] then (Some sampleUser, None)
           else (None, Some (SbError [0x6E, 0x6F])))
          profileError searchReply insertError)"

definition noWindows :: store where
  "noWindows = Map.empty"

definition sampleRequest :: "jsstring option \<Rightarrow> json \<Rightarrow> request" where
  "sampleRequest authHeader q =
     \<lparr>hdr_x_forwarded_for = None, hdr_authorization = authHeader, req_ip = Some [0x31],
      req_body = Some (JObj [(ascii ''query'', q)])\<rparr>"

section \<open>The rate limiter\<close>

lemma isRateLimited_other:
  "ip' \<noteq> ip \<Longrightarrow> snd (isRateLimited now ip' st) ip = st ip"
  by (simp add: isRateLimited_def Let_def split: option.splits)

lemma isRateLimited_fresh:
  "freshOrExpired st ip now \<Longrightarrow>
   isRateLimited now ip st = (False, st(ip \<mapsto> \<lparr>windowStart = now, count = 1\<rparr>))"
  by (auto simp add: isRateLimited_def freshOrExpired_def split: option.splits)

lemma isRateLimited_in_window:
  "st ip = Some e \<Longrightarrow> now - windowStart e \<le> RATE_LIMIT_WINDOW_MS \<Longrightarrow>
   isRateLimited now ip st =
     (RATE_LIMIT_MAX_REQUESTS < Suc (count e), st(ip \<mapsto> e\<lparr>count := Suc (count e)\<rparr>))"
  by (simp add: isRateLimited_def Let_def)

lemma answersFor_Nil: "answersFor ip st [] = []"
  by (simp add: answersFor_def)

lemma answersFor_Cons:
  "answersFor ip st ((ip', now) # cs) =
     (if ip' = ip then [fst (isRateLimited now ip' st)] else []) @
     answersFor ip (snd (isRateLimited now ip' st)) cs"
  by (simp add: answersFor_def split: prod.splits)

text \<open>
  While the window of \<open>ip\<close> stays open, its \<open>i\<close>-th further call is denied exactly when the
  count passes the ceiling, whatever other clients do in between.
\<close>

lemma answersFor_in_window:
  "st ip = Some e \<Longrightarrow>
   \<forall>c \<in> set cs. fst c = ip \<longrightarrow> snd c - windowStart e \<le> RATE_LIMIT_WINDOW_MS \<Longrightarrow>
   answersFor ip st cs =
     map (\<lambda>i. RATE_LIMIT_MAX_REQUESTS < count e + Suc i) [0..<length (filter (\<lambda>c. fst c = ip) cs)]"
proof (induction cs arbitrary: st e)
  case Nil
  show ?case by (simp add: answersFor_Nil)
next
  case (Cons c cs)
  let ?n = "length (filter (\<lambda>c. fst c = ip) cs)"
  obtain ip' now where c: "c = (ip', now)" by (cases c)
  show ?case
  proof (cases "ip' = ip")
    case False
    have "snd (isRateLimited now ip' st) ip = Some e"
      using False Cons.prems(1) by (simp add: isRateLimited_other)
    then have "answersFor ip (snd (isRateLimited now ip' st)) cs =
        map (\<lambda>i. RATE_LIMIT_MAX_REQUESTS < count e + Suc i) [0..<?n]"
      by (rule Cons.IH) (use Cons.prems(2) in simp)
    then show ?thesis
      using False by (simp add: c answersFor_Cons)
  next
    case True
    have inw: "now - windowStart e \<le> RATE_LIMIT_WINDOW_MS"
      using Cons.prems(2) True by (simp add: c)
    let ?e = "e\<lparr>count := Suc (count e)\<rparr>"
    have step: "isRateLimited now ip st = (RATE_LIMIT_MAX_REQUESTS < Suc (count e), st(ip \<mapsto> ?e))"
      using Cons.prems(1) inw by (rule isRateLimited_in_window)
    have "answersFor ip (st(ip \<mapsto> ?e)) cs =
        map (\<lambda>i. RATE_LIMIT_MAX_REQUESTS < count ?e + Suc i) [0..<?n]"
      by (rule Cons.IH) (use Cons.prems(2) in simp_all)
    then have ih: "answersFor ip (st(ip \<mapsto> ?e)) cs =
        map (\<lambda>i. RATE_LIMIT_MAX_REQUESTS < Suc (count e) + Suc i) [0..<?n]"
      by simp
    have "[0..<Suc ?n] = 0 # map Suc [0..<?n]"
      by (simp only: upt_conv_Cons zero_less_Suc map_Suc_upt)
    then show ?thesis
      using True by (simp add: c answersFor_Cons step ih del: upt_Suc)
  qed
qed

text \<open>
  C2. Let the first call of client \<open>ip\<close> come at time \<open>t0\<close>, when \<open>ip\<close> has no window or an
  expired one, and let every later call of \<open>ip\<close> in the sequence come no later than 60
  seconds after \<open>t0\<close>, calls of other clients in between being arbitrary. Then each of
  the first 30 calls of \<open>ip\<close> (the one at \<open>t0\<close> included) is allowed, and the 31st is denied.
\<close>

theorem rate_limit_window:
  assumes "freshOrExpired st ip t0"
      and "\<forall>c \<in> set cs. fst c = ip \<longrightarrow> snd c - t0 \<le> RATE_LIMIT_WINDOW_MS"
  shows "length (answersFor ip st ((ip, t0) # cs)) = Suc (length (filter (\<lambda>c. fst c = ip) cs)) \<and>
         (\<forall>i < length (answersFor ip st ((ip, t0) # cs)).
            i < 30 \<longrightarrow> \<not> answersFor ip st ((ip, t0) # cs) ! i) \<and>
         (30 < length (answersFor ip st ((ip, t0) # cs)) \<longrightarrow>
            answersFor ip st ((ip, t0) # cs) ! 30)"
proof -
  let ?e = "\<lparr>windowStart = t0, count = 1\<rparr>"
  let ?n = "length (filter (\<lambda>c. fst c = ip) cs)"
  have first: "isRateLimited t0 ip st = (False, st(ip \<mapsto> ?e))"
    using assms(1) by (rule isRateLimited_fresh)
  have "answersFor ip (st(ip \<mapsto> ?e)) cs =
      map (\<lambda>i. RATE_LIMIT_MAX_REQUESTS < count ?e + Suc i) [0..<?n]"
    by (rule answersFor_in_window) (use assms(2) in simp_all)
  then have rest: "answersFor ip (st(ip \<mapsto> ?e)) cs = map (\<lambda>i. 30 < Suc (Suc i)) [0..<?n]"
    by (simp only: RATE_LIMIT_MAX_REQUESTS_def entry.simps add_Suc One_nat_def add_0)
  have all: "answersFor ip st ((ip, t0) # cs) = False # map (\<lambda>i. 30 < Suc (Suc i)) [0..<?n]"
    by (simp only: answersFor_Cons first rest fst_conv snd_conv if_True append_Cons append_Nil refl)
  show ?thesis
    unfolding all by (auto simp: nth_Cons split: nat.splits)
qed

theorem rate_limit_window_witness:
  "freshOrExpired Map.empty [0x31] 0 \<and>
   length (answersFor [0x31] Map.empty (([0x31], 0) # ([0x32], 7) # replicate 30 ([0x31], 60000))) = 31 \<and>
   \<not> answersFor [0x31] Map.empty (([0x31], 0) # ([0x32], 7) # replicate 30 ([0x31], 60000)) ! 29 \<and>
   answersFor [0x31] Map.empty (([0x31], 0) # ([0x32], 7) # replicate 30 ([0x31], 60000)) ! 30"
proof -
  have h1: "freshOrExpired Map.empty [0x31] 0"
    by (simp add: freshOrExpired_def)
  have h2: "\<forall>c \<in> set (([0x32], 7) # replicate 30 ([0x31], 60000)).
              fst c = [0x31::16 word] \<longrightarrow> snd c - 0 \<le> RATE_LIMIT_WINDOW_MS"
    by (simp add: RATE_LIMIT_WINDOW_MS_def)
  from rate_limit_window [OF h1 h2] h1 show ?thesis
    by simp
qed

section \<open>The paths through the handler\<close>

text \<open>
  The handler leaves by one of five exits: rate limited, invalid input, misconfigured,
  unauthorized, or through the fetch stage; the fetch stage by one of four.
\<close>

lemma askJiji_cases:
  obtains
    (limited) "fst (rateCheck now (getClientIp req) st)"
      "askJiji cfg create rid now req st =
         \<lparr>resp = failure 429 rid ''Too many requests. Please retry later.'' None,
          store_after = snd (rateCheck now (getClientIp req) st), effects = []\<rparr>"
  | (invalid) msg where "\<not> fst (rateCheck now (getClientIp req) st)"
      "validate (queryOf req) = Inl msg"
      "askJiji cfg create rid now req st =
         \<lparr>resp = failure 400 rid msg None,
          store_after = snd (rateCheck now (getClientIp req) st), effects = []\<rparr>"
  | (misconfigured) q where "\<not> fst (rateCheck now (getClientIp req) st)"
      "validate (queryOf req) = Inr q"
      "\<not> truthyStr (supabaseUrl cfg) \<or> \<not> truthyStr (supabaseAnonKey cfg)"
      "askJiji cfg create rid now req st =
         \<lparr>resp = failure 500 rid
            ''Server misconfiguration. Missing Supabase environment variables.'' None,
          store_after = snd (rateCheck now (getClientIp req) st), effects = []\<rparr>"
  | (unauthorized) q where "\<not> fst (rateCheck now (getClientIp req) st)"
      "validate (queryOf req) = Inr q"
      "truthyStr (supabaseUrl cfg)" "truthyStr (supabaseAnonKey cfg)"
      "snd (auth_getUser (buildSupabaseClient create cfg (hdr_authorization req))) \<noteq> None \<or>
       fst (auth_getUser (buildSupabaseClient create cfg (hdr_authorization req))) = None"
      "askJiji cfg create rid now req st =
         \<lparr>resp = failure 401 rid
            ''Unauthorized. Provide a valid Supabase JWT in the Authorization header.'' None,
          store_after = snd (rateCheck now (getClientIp req) st), effects = [GetUser]\<rparr>"
  | (authorized) q u where "\<not> fst (rateCheck now (getClientIp req) st)"
      "validate (queryOf req) = Inr q"
      "truthyStr (supabaseUrl cfg)" "truthyStr (supabaseAnonKey cfg)"
      "auth_getUser (buildSupabaseClient create cfg (hdr_authorization req)) = (Some u, None)"
      "askJiji cfg create rid now req st =
         \<lparr>resp = fst (fetchAndAnswer (buildSupabaseClient create cfg (hdr_authorization req)) rid u q),
          store_after = snd (rateCheck now (getClientIp req) st),
          effects =
            GetUser # snd (fetchAndAnswer (buildSupabaseClient create cfg (hdr_authorization req)) rid u q)\<rparr>"
proof (cases "fst (rateCheck now (getClientIp req) st)")
  case True
  then show ?thesis
    by (intro limited) (simp_all add: askJiji_def split_def Let_def)
next
  case nl: False
  show ?thesis
  proof (cases "validate (queryOf req)")
    case (Inl msg)
    with nl show ?thesis
      by (intro invalid [of msg]) (simp_all add: askJiji_def split_def Let_def)
  next
    case (Inr q)
    show ?thesis
    proof (cases "truthyStr (supabaseUrl cfg) \<and> truthyStr (supabaseAnonKey cfg)")
      case False
      with nl Inr show ?thesis
        by (intro misconfigured [of q]) (auto simp add: askJiji_def split_def Let_def)
    next
      case True
      obtain usr authError where
        au: "auth_getUser (buildSupabaseClient create cfg (hdr_authorization req)) = (usr, authError)"
        by (cases "auth_getUser (buildSupabaseClient create cfg (hdr_authorization req))")
      show ?thesis
      proof (cases "authError = None \<and> usr \<noteq> None")
        case False
        with nl Inr True au show ?thesis
          by (intro unauthorized [of q])
             (auto simp add: askJiji_def split_def Let_def split: option.splits)
      next
        case ok: True
        then obtain u where "usr = Some u" by auto
        with nl Inr True au ok show ?thesis
          by (intro authorized [of q u])
             (auto simp add: askJiji_def split_def Let_def)
      qed
    qed
  qed
qed

lemma fetchAndAnswer_cases:
  obtains
    (profile) e where "profiles_upsert supabase (mkProfilePayload u) = Some e"
      "fetchAndAnswer supabase rid u q =
         (failure 500 rid ''Failed to sync profile.'' (Some (message e)),
          [ProfilesUpsert (mkProfilePayload u), ResourcesSelect (searchFilter q) 5])"
  | (fetch) e where "profiles_upsert supabase (mkProfilePayload u) = None"
      "snd (resources_select supabase (searchFilter q) 5) = Some e"
      "fetchAndAnswer supabase rid u q =
         (failure 500 rid ''Failed to fetch resources.'' (Some (message e)),
          [ProfilesUpsert (mkProfilePayload u), ResourcesSelect (searchFilter q) 5])"
  | (log) e where "profiles_upsert supabase (mkProfilePayload u) = None"
      "snd (resources_select supabase (searchFilter q) 5) = None"
      "queries_insert supabase (user_id u) q = Some e"
      "fetchAndAnswer supabase rid u q =
         (failure 500 rid ''Failed to save query.'' (Some (message e)),
          [ProfilesUpsert (mkProfilePayload u), ResourcesSelect (searchFilter q) 5,
           QueriesInsert (user_id u) q])"
  | (success) found where "profiles_upsert supabase (mkProfilePayload u) = None"
      "resources_select supabase (searchFilter q) 5 = (found, None)"
      "queries_insert supabase (user_id u) q = None"
      "fetchAndAnswer supabase rid u q =
         (\<lparr>status = 200, headers = [(''X-Request-Id'', rid)],
           body = AnswerBody rid (responseText q)
                    (resourcesWithLinks supabase (case found of None \<Rightarrow> [] | Some l \<Rightarrow> l))\<rparr>,
          [ProfilesUpsert (mkProfilePayload u), ResourcesSelect (searchFilter q) 5,
           QueriesInsert (user_id u) q] @
          map (\<lambda>r. GetPublicUrl (storage_path r)) (case found of None \<Rightarrow> [] | Some l \<Rightarrow> l))"
proof (cases "profiles_upsert supabase (mkProfilePayload u)")
  case (Some e)
  then show ?thesis
    by (intro profile [of e]) (simp_all add: fetchAndAnswer_def Let_def split_def)
next
  case np: None
  obtain found resourceError where
    rs: "resources_select supabase (searchFilter q) 5 = (found, resourceError)"
    by (cases "resources_select supabase (searchFilter q) 5")
  show ?thesis
  proof (cases resourceError)
    case (Some e)
    with np rs show ?thesis
      by (intro fetch [of e]) (simp_all add: fetchAndAnswer_def Let_def split_def)
  next
    case nr: None
    show ?thesis
    proof (cases "queries_insert supabase (user_id u) q")
      case (Some e)
      with np rs nr show ?thesis
        by (intro log [of e]) (simp_all add: fetchAndAnswer_def Let_def split_def)
    next
      case None
      with np rs nr show ?thesis
        by (intro success [of found]) (simp_all add: fetchAndAnswer_def Let_def split_def)
    qed
  qed
qed

section \<open>Results on the handler\<close>

lemmas run_defs = sampleConfig_def sampleClient_def sampleCreate_def sampleRequest_def sampleUser_def
  sampleResource_def noWindows_def
  askJiji_def fetchAndAnswer_def failure_def Let_def
  getClientIp_def rateCheck_def isRateLimited_def queryOf_def validate_def trim_def isWhiteSpace_def
  truthyStr_def buildSupabaseClient_def mkProfilePayload_def resourcesWithLinks_def
  MAX_QUERY_LENGTH_def RATE_LIMIT_WINDOW_MS_def RATE_LIMIT_MAX_REQUESTS_def

subsection \<open>Authentication comes fourth\<close>

text \<open>
  C1, as stated: a request without a valid bearer credential gets 401 whatever its query.
  It fails: the handler validates the query before it looks at the credential, so the
  request below, with no Authorization header and the two-character query \<open>"ab"\<close>, gets
  400.
\<close>

theorem unauthorized_invalid_query_counterexample:
  "fst (auth_getUser (buildSupabaseClient (sampleCreate None (Some [], None) None) sampleConfig
          (hdr_authorization (sampleRequest None (JStr [0x61, 0x62]))))) = None \<and>
   status (resp (askJiji sampleConfig (sampleCreate None (Some [], None) None) [0x39] 0
                   (sampleRequest None (JStr [0x61, 0x62])) noWindows)) = 400"
  by (simp add: run_defs)

text \<open>
  C1, amended: for a request whose credential does not verify (the auth collaborator
  reports an error or no user), the status is that of the first gate it fails, in the
  order rate limit (429), validation (400), configuration (500); it is 401 when the
  request passes all three.
\<close>

theorem unauthorized_after_gates:
  assumes "snd (auth_getUser (buildSupabaseClient create cfg (hdr_authorization req))) \<noteq> None \<or>
           fst (auth_getUser (buildSupabaseClient create cfg (hdr_authorization req))) = None"
  shows "status (resp (askJiji cfg create rid now req st)) =
           (if fst (rateCheck now (getClientIp req) st) then 429
            else if isl (validate (queryOf req)) then 400
            else if \<not> truthyStr (supabaseUrl cfg) \<or> \<not> truthyStr (supabaseAnonKey cfg) then 500
            else 401)"
proof (cases cfg create rid now req st rule: askJiji_cases)
  case (authorized q u)
  with assms show ?thesis by simp
qed (auto simp add: failure_def)

theorem unauthorized_after_gates_witness:
  "fst (auth_getUser (buildSupabaseClient (sampleCreate None (Some [], None) None) sampleConfig
          (hdr_authorization (sampleRequest None (JStr [0x61, 0x62, 0x63]))))) = None \<and>
   status (resp (askJiji sampleConfig (sampleCreate None (Some [], None) None) [0x39] 0
                   (sampleRequest None (JStr [0x61, 0x62, 0x63])) noWindows)) = 401"
proof -
  have h: "fst (auth_getUser (buildSupabaseClient (sampleCreate None (Some [], None) None) sampleConfig
          (hdr_authorization (sampleRequest None (JStr [0x61, 0x62, 0x63]))))) = None"
    by (simp add: sampleCreate_def sampleClient_def sampleRequest_def buildSupabaseClient_def
          truthyStr_def)
  have g: "\<not> fst (rateCheck 0 (getClientIp (sampleRequest None (JStr [0x61, 0x62, 0x63]))) noWindows)"
    by (simp add: rateCheck_def getClientIp_def sampleRequest_def truthyStr_def isRateLimited_def
          noWindows_def)
  have v: "validate (queryOf (sampleRequest None (JStr [0x61, 0x62, 0x63]))) = Inr [0x61, 0x62, 0x63]"
    by (simp add: validate_def queryOf_def sampleRequest_def trim_def isWhiteSpace_def
          MAX_QUERY_LENGTH_def)
  have c: "truthyStr (supabaseUrl sampleConfig) \<and> truthyStr (supabaseAnonKey sampleConfig)"
    by (simp add: sampleConfig_def truthyStr_def)
  from unauthorized_after_gates [of "sampleCreate None (Some [], None) None" sampleConfig
      "sampleRequest None (JStr [0x61, 0x62, 0x63])" "[0x39]" 0 noWindows] h g v c
  show ?thesis by simp
qed

subsection \<open>The fetch stage\<close>

text \<open>
  C3, as stated: a failed resource search gives status 500 with error "Failed to fetch
  resources." whether or not the profile upsert failed. It fails when both fail: the
  handler inspects the profile error first, and the request below (verified user, query
  \<open>"abc"\<close>, both collaborator calls failing) is answered 500 with error "Failed to sync
  profile." and the upsert error's message as details.
\<close>

theorem search_and_profile_fail_counterexample:
  "snd (resources_select
          (buildSupabaseClient
             (sampleCreate (Some (SbError [0x70])) (None, Some (SbError [0x72])) None) sampleConfig
             (hdr_authorization (sampleRequest (Some [0x74]) (JStr [0x61, 0x62, 0x63]))))
          (searchFilter [0x61, 0x62, 0x63]) 5) = Some (SbError [0x72]) \<and>
   status (resp (askJiji sampleConfig
                   (sampleCreate (Some (SbError [0x70])) (None, Some (SbError [0x72])) None) [0x39] 0
                   (sampleRequest (Some [0x74]) (JStr [0x61, 0x62, 0x63])) noWindows)) = 500 \<and>
   body (resp (askJiji sampleConfig
                 (sampleCreate (Some (SbError [0x70])) (None, Some (SbError [0x72])) None) [0x39] 0
                 (sampleRequest (Some [0x74]) (JStr [0x61, 0x62, 0x63])) noWindows)) =
     ErrorBody ''Failed to sync profile.'' (Some [0x70])"
  by (simp add: run_defs)

text \<open>
  C3, amended: when the resource search that the handler issued fails, the response has
  status 500; if the concurrent profile upsert succeeded, its body is error "Failed to
  fetch resources." with the search error's message as details, and if the upsert failed
  too, its body is error "Failed to sync profile." with the upsert error's message.
\<close>

theorem resource_fetch_failed:
  assumes "ResourcesSelect f n \<in> set (effects (askJiji cfg create rid now req st))"
      and "snd (resources_select (buildSupabaseClient create cfg (hdr_authorization req)) f n) = Some e"
      and "ProfilesUpsert p \<in> set (effects (askJiji cfg create rid now req st))"
  shows "status (resp (askJiji cfg create rid now req st)) = 500 \<and>
         headers (resp (askJiji cfg create rid now req st)) = [(''X-Request-Id'', rid)] \<and>
         body (resp (askJiji cfg create rid now req st)) =
           (case profiles_upsert (buildSupabaseClient create cfg (hdr_authorization req)) p of
              None \<Rightarrow> ErrorBody ''Failed to fetch resources.'' (Some (message e))
            | Some e' \<Rightarrow> ErrorBody ''Failed to sync profile.'' (Some (message e')))"
proof (cases cfg create rid now req st rule: askJiji_cases)
  case (authorized q u)
  show ?thesis
    using assms
    by (cases "buildSupabaseClient create cfg (hdr_authorization req)" rid u q
          rule: fetchAndAnswer_cases)
       (auto simp add: authorized(6) failure_def)
qed (use assms in simp_all)

theorem resource_fetch_failed_witness:
  "ResourcesSelect (searchFilter [0x61, 0x62, 0x63]) 5 \<in>
     set (effects (askJiji sampleConfig (sampleCreate None (None, Some (SbError [0x72])) None) [0x39] 0
                     (sampleRequest (Some [0x74]) (JStr [0x61, 0x62, 0x63])) noWindows)) \<and>
   status (resp (askJiji sampleConfig (sampleCreate None (None, Some (SbError [0x72])) None) [0x39] 0
                   (sampleRequest (Some [0x74]) (JStr [0x61, 0x62, 0x63])) noWindows)) = 500 \<and>
   body (resp (askJiji sampleConfig (sampleCreate None (None, Some (SbError [0x72])) None) [0x39] 0
                 (sampleRequest (Some [0x74]) (JStr [0x61, 0x62, 0x63])) noWindows)) =
     ErrorBody ''Failed to fetch resources.'' (Some [0x72])"
proof -
  let ?run = "askJiji sampleConfig (sampleCreate None (None, Some (SbError [0x72])) None) [0x39] 0
                (sampleRequest (Some [0x74]) (JStr [0x61, 0x62, 0x63])) noWindows"
  let ?sb = "buildSupabaseClient (sampleCreate None (None, Some (SbError [0x72])) None) sampleConfig
               (hdr_authorization (sampleRequest (Some [0x74]) (JStr [0x61, 0x62, 0x63])))"
  have es: "effects ?run =
      [GetUser, ProfilesUpsert (mkProfilePayload sampleUser),
       ResourcesSelect (searchFilter [0x61, 0x62, 0x63]) 5]"
    by (simp add: run_defs)
  have h1: "ResourcesSelect (searchFilter [0x61, 0x62, 0x63]) 5 \<in> set (effects ?run)"
    by (simp add: es)
  have h2: "snd (resources_select ?sb (searchFilter [0x61, 0x62, 0x63]) 5) = Some (SbError [0x72])"
    by (simp add: sampleCreate_def sampleClient_def buildSupabaseClient_def)
  have h3: "ProfilesUpsert (mkProfilePayload sampleUser) \<in> set (effects ?run)"
    by (simp add: es)
  have p: "profiles_upsert ?sb (mkProfilePayload sampleUser) = None"
    by (simp add: sampleCreate_def sampleClient_def buildSupabaseClient_def)
  from resource_fetch_failed [OF h1 h2 h3] p h1 show ?thesis
    by simp
qed

text \<open>
  C6. When the profile upsert that the handler issued fails, the response has status
  500 and the body error "Failed to sync profile." with the upsert error's message as
  details, and the handler issues no insert into the query log, whatever the resource
  search replied.
\<close>

theorem profile_sync_failed:
  assumes "ProfilesUpsert p \<in> set (effects (askJiji cfg create rid now req st))"
      and "profiles_upsert (buildSupabaseClient create cfg (hdr_authorization req)) p = Some e"
  shows "status (resp (askJiji cfg create rid now req st)) = 500 \<and>
         headers (resp (askJiji cfg create rid now req st)) = [(''X-Request-Id'', rid)] \<and>
         body (resp (askJiji cfg create rid now req st)) =
           ErrorBody ''Failed to sync profile.'' (Some (message e)) \<and>
         (\<forall>a t. QueriesInsert a t \<notin> set (effects (askJiji cfg create rid now req st)))"
proof (cases cfg create rid now req st rule: askJiji_cases)
  case (authorized q u)
  show ?thesis
    using assms
    by (cases "buildSupabaseClient create cfg (hdr_authorization req)" rid u q
          rule: fetchAndAnswer_cases)
       (auto simp add: authorized(6) failure_def)
qed (use assms in simp_all)

theorem profile_sync_failed_witness:
  "fst (resources_select
          (buildSupabaseClient
             (sampleCreate (Some (SbError [0x70])) (Some [sampleResource], None) None) sampleConfig
             (hdr_authorization (sampleRequest (Some [0x74]) (JStr [0x61, 0x62, 0x63]))))
          (searchFilter [0x61, 0x62, 0x63]) 5) = Some [sampleResource] \<and>
   status (resp (askJiji sampleConfig
                   (sampleCreate (Some (SbError [0x70])) (Some [sampleResource], None) None) [0x39] 0
                   (sampleRequest (Some [0x74]) (JStr [0x61, 0x62, 0x63])) noWindows)) = 500 \<and>
   body (resp (askJiji sampleConfig
                 (sampleCreate (Some (SbError [0x70])) (Some [sampleResource], None) None) [0x39] 0
                 (sampleRequest (Some [0x74]) (JStr [0x61, 0x62, 0x63])) noWindows)) =
     ErrorBody ''Failed to sync profile.'' (Some [0x70]) \<and>
   QueriesInsert [0x55] [0x61, 0x62, 0x63] \<notin>
     set (effects (askJiji sampleConfig
           (sampleCreate (Some (SbError [0x70])) (Some [sampleResource], None) None) [0x39] 0
           (sampleRequest (Some [0x74]) (JStr [0x61, 0x62, 0x63])) noWindows))"
proof -
  let ?run = "askJiji sampleConfig
                (sampleCreate (Some (SbError [0x70])) (Some [sampleResource], None) None) [0x39] 0
                (sampleRequest (Some [0x74]) (JStr [0x61, 0x62, 0x63])) noWindows"
  let ?sb = "buildSupabaseClient
               (sampleCreate (Some (SbError [0x70])) (Some [sampleResource], None) None) sampleConfig
               (hdr_authorization (sampleRequest (Some [0x74]) (JStr [0x61, 0x62, 0x63])))"
  have h1: "ProfilesUpsert (mkProfilePayload sampleUser) \<in> set (effects ?run)"
    by (simp add: run_defs)
  have h2: "profiles_upsert ?sb (mkProfilePayload sampleUser) = Some (SbError [0x70])"
    by (simp add: sampleCreate_def sampleClient_def buildSupabaseClient_def)
  have s: "fst (resources_select ?sb (searchFilter [0x61, 0x62, 0x63]) 5) = Some [sampleResource]"
    by (simp add: sampleCreate_def sampleClient_def buildSupabaseClient_def)
  from profile_sync_failed [OF h1 h2] s show ?thesis
    by simp
qed

subsection \<open>The validator\<close>

lemma typeof_string: "typeof q = ''string'' \<longleftrightarrow> (\<exists>s. q = Some (JStr s))"
  by (cases q rule: typeof.cases) simp_all

lemma validate_string:
  "validate (Some (JStr s)) =
     (if s = [] then Inl ''Query must be a non-empty string.''
      else if length (trim s) < 3 \<or> length (trim s) > 500
      then Inl ''Query must be between 3 and 500 characters.''
      else Inr (trim s))"
  by (simp add: validate_def Let_def MAX_QUERY_LENGTH_def)

lemma validate_other:
  "typeof q \<noteq> ''string'' \<Longrightarrow> validate q = Inl ''Query must be a non-empty string.''"
  by (simp add: validate_def)

text \<open>
  C4, as stated: the "non-empty string" failure occurs exactly when the query is missing
  or not a string, and every failure of a string is a length failure. It fails for the
  empty string: \<open>!query\<close> is true for \<open>""\<close>, so the request below, whose query field is
  present and is the string \<open>""\<close>, gets "Query must be a non-empty string.".
\<close>

theorem empty_string_counterexample:
  "queryOf (sampleRequest (Some [0x74]) (JStr [])) = Some (JStr []) \<and>
   typeof (Some (JStr [])) = ''string'' \<and>
   resp (askJiji sampleConfig (sampleCreate None (Some [], None) None) [0x39] 0
           (sampleRequest (Some [0x74]) (JStr [])) noWindows) =
     \<lparr>status = 400, headers = [(''X-Request-Id'', [0x39])],
      body = ErrorBody ''Query must be a non-empty string.'' None\<rparr>"
  by (simp add: run_defs)

text \<open>
  C4, amended: the validator fails with "Query must be a non-empty string." exactly when
  the query field is missing, is not a string, or is the empty string; for every
  non-empty string a validation failure is the length failure, and it occurs exactly
  when the trimmed length is below 3 or above 500. A request that passes the rate limit
  and fails validation is answered 400 with the validator's message and no details.
\<close>

theorem validate_not_a_string:
  "(validate q = Inl ''Query must be a non-empty string.'' \<longleftrightarrow>
      q = None \<or> typeof q \<noteq> ''string'' \<or> q = Some (JStr [])) \<and>
   (\<forall>s msg. s \<noteq> [] \<longrightarrow>
      (validate (Some (JStr s)) = Inl msg \<longleftrightarrow>
       msg = ''Query must be between 3 and 500 characters.'' \<and>
       (length (trim s) < 3 \<or> length (trim s) > 500))) \<and>
   (\<forall>msg. \<not> fst (rateCheck now (getClientIp req) st) \<longrightarrow> validate (queryOf req) = Inl msg \<longrightarrow>
      resp (askJiji cfg create rid now req st) =
        \<lparr>status = 400, headers = [(''X-Request-Id'', rid)], body = ErrorBody msg None\<rparr>)"
proof (intro conjI allI impI)
  show "validate q = Inl ''Query must be a non-empty string.'' \<longleftrightarrow>
      q = None \<or> typeof q \<noteq> ''string'' \<or> q = Some (JStr [])"
  proof (cases "typeof q = ''string''")
    case True
    then obtain s where "q = Some (JStr s)" by (auto simp: typeof_string)
    then show ?thesis by (simp add: validate_string)
  next
    case False
    then show ?thesis by (simp add: validate_other)
  qed
next
  fix s :: jsstring and msg
  assume "s \<noteq> []"
  then show "validate (Some (JStr s)) = Inl msg \<longleftrightarrow>
       msg = ''Query must be between 3 and 500 characters.'' \<and>
       (length (trim s) < 3 \<or> length (trim s) > 500)"
    by (auto simp add: validate_string)
next
  fix msg
  assume nl: "\<not> fst (rateCheck now (getClientIp req) st)"
     and iv: "validate (queryOf req) = Inl msg"
  show "resp (askJiji cfg create rid now req st) =
          \<lparr>status = 400, headers = [(''X-Request-Id'', rid)], body = ErrorBody msg None\<rparr>"
    by (cases cfg create rid now req st rule: askJiji_cases)
       (use nl iv in \<open>simp_all add: failure_def\<close>)
qed

theorem validate_not_a_string_witness:
  "validate (Some (JNum 5)) = Inl ''Query must be a non-empty string.'' \<and>
   validate (Some (JStr [0x20, 0x61, 0x62, 0x20])) = Inl ''Query must be between 3 and 500 characters.'' \<and>
   resp (askJiji sampleConfig (sampleCreate None (Some [], None) None) [0x39] 0
           (sampleRequest (Some [0x74]) (JStr [0x20, 0x61, 0x62, 0x20])) noWindows) =
     \<lparr>status = 400, headers = [(''X-Request-Id'', [0x39])],
      body = ErrorBody ''Query must be between 3 and 500 characters.'' None\<rparr>"
proof -
  note t = validate_not_a_string [of "Some (JNum 5)" 0
      "sampleRequest (Some [0x74]) (JStr [0x20, 0x61, 0x62, 0x20])" noWindows sampleConfig
      "sampleCreate None (Some [], None) None" "[0x39]"]
  have tr: "trim [0x20, 0x61, 0x62, 0x20] = [0x61, 0x62]"
    by (simp add: trim_def isWhiteSpace_def)
  have a: "validate (Some (JNum 5)) = Inl ''Query must be a non-empty string.''"
    using t by simp
  have b: "validate (Some (JStr [0x20, 0x61, 0x62, 0x20])) =
             Inl ''Query must be between 3 and 500 characters.''"
    using t tr by simp
  have q: "queryOf (sampleRequest (Some [0x74]) (JStr [0x20, 0x61, 0x62, 0x20])) =
             Some (JStr [0x20, 0x61, 0x62, 0x20])"
    by (simp add: queryOf_def sampleRequest_def)
  have g: "\<not> fst (rateCheck 0 (getClientIp (sampleRequest (Some [0x74]) (JStr [0x20, 0x61, 0x62, 0x20])))
                     noWindows)"
    by (simp add: rateCheck_def getClientIp_def sampleRequest_def truthyStr_def isRateLimited_def
          noWindows_def)
  from t g b q a show ?thesis
    by simp
qed

text \<open>
  C5. For a request whose query is the string \<open>s\<close>, validation accepts with result \<open>q\<close>
  exactly when \<open>q\<close> is \<open>trim s\<close> and \<open>3 \<le> length (trim s) \<le> 500\<close>, and everything
  downstream uses \<open>trim s\<close> as it is: the search filter, the text written to the query
  log and the answer; a 200 response has issued both the search and the log write.
\<close>

theorem trimmed_query_used:
  assumes "queryOf req = Some (JStr s)"
  shows "(validate (queryOf req) = Inr q \<longleftrightarrow>
            q = trim s \<and> 3 \<le> length (trim s) \<and> length (trim s) \<le> 500) \<and>
         (\<forall>f n. ResourcesSelect f n \<in> set (effects (askJiji cfg create rid now req st)) \<longrightarrow>
            f = searchFilter (trim s) \<and> n = 5) \<and>
         (\<forall>a t. QueriesInsert a t \<in> set (effects (askJiji cfg create rid now req st)) \<longrightarrow>
            t = trim s) \<and>
         (\<forall>r a ls. body (resp (askJiji cfg create rid now req st)) = AnswerBody r a ls \<longrightarrow>
            a = responseText (trim s)) \<and>
         (status (resp (askJiji cfg create rid now req st)) = 200 \<longrightarrow>
            ResourcesSelect (searchFilter (trim s)) 5 \<in> set (effects (askJiji cfg create rid now req st)) \<and>
            (\<exists>a. QueriesInsert a (trim s) \<in> set (effects (askJiji cfg create rid now req st))))"
proof -
  have v: "validate (queryOf req) =
     (if s = [] then Inl ''Query must be a non-empty string.''
      else if length (trim s) < 3 \<or> length (trim s) > 500
      then Inl ''Query must be between 3 and 500 characters.''
      else Inr (trim s))"
    by (simp only: assms validate_string)
  have a: "validate (queryOf req) = Inr q \<longleftrightarrow>
            q = trim s \<and> 3 \<le> length (trim s) \<and> length (trim s) \<le> 500"
    unfolding v by (auto simp: trim_def)
  have rest: "(\<forall>f n. ResourcesSelect f n \<in> set (effects (askJiji cfg create rid now req st)) \<longrightarrow>
            f = searchFilter (trim s) \<and> n = 5) \<and>
         (\<forall>a t. QueriesInsert a t \<in> set (effects (askJiji cfg create rid now req st)) \<longrightarrow>
            t = trim s) \<and>
         (\<forall>r a ls. body (resp (askJiji cfg create rid now req st)) = AnswerBody r a ls \<longrightarrow>
            a = responseText (trim s)) \<and>
         (status (resp (askJiji cfg create rid now req st)) = 200 \<longrightarrow>
            ResourcesSelect (searchFilter (trim s)) 5 \<in> set (effects (askJiji cfg create rid now req st)) \<and>
            (\<exists>a. QueriesInsert a (trim s) \<in> set (effects (askJiji cfg create rid now req st))))"
  proof (cases cfg create rid now req st rule: askJiji_cases)
    case (authorized q' u)
    have q': "q' = trim s"
      using authorized(2) unfolding v by (simp split: if_splits)
    show ?thesis
      by (cases "buildSupabaseClient create cfg (hdr_authorization req)" rid u q'
            rule: fetchAndAnswer_cases)
         (auto simp add: authorized(6) q' failure_def)
  qed (simp_all add: failure_def)
  from a rest show ?thesis by blast
qed

theorem trimmed_query_used_witness:
  "queryOf (sampleRequest (Some [0x74]) (JStr [0x20, 0x61, 0x62, 0x63, 0x20])) =
     Some (JStr [0x20, 0x61, 0x62, 0x63, 0x20]) \<and>
   validate (queryOf (sampleRequest (Some [0x74]) (JStr [0x20, 0x61, 0x62, 0x63, 0x20]))) =
     Inr [0x61, 0x62, 0x63] \<and>
   status (resp (askJiji sampleConfig (sampleCreate None (Some [sampleResource], None) None) [0x39] 0
                   (sampleRequest (Some [0x74]) (JStr [0x20, 0x61, 0x62, 0x63, 0x20])) noWindows)) = 200 \<and>
   ResourcesSelect (searchFilter [0x61, 0x62, 0x63]) 5 \<in>
     set (effects (askJiji sampleConfig (sampleCreate None (Some [sampleResource], None) None) [0x39] 0
                     (sampleRequest (Some [0x74]) (JStr [0x20, 0x61, 0x62, 0x63, 0x20])) noWindows))"
proof -
  let ?req = "sampleRequest (Some [0x74]) (JStr [0x20, 0x61, 0x62, 0x63, 0x20])"
  have h: "queryOf ?req = Some (JStr [0x20, 0x61, 0x62, 0x63, 0x20])"
    by (simp add: queryOf_def sampleRequest_def)
  have tr: "trim [0x20, 0x61, 0x62, 0x63, 0x20] = [0x61, 0x62, 0x63]"
    by (simp add: trim_def isWhiteSpace_def)
  have ok: "status (resp (askJiji sampleConfig (sampleCreate None (Some [sampleResource], None) None)
                            [0x39] 0 ?req noWindows)) = 200"
    by (simp add: run_defs)
  from trimmed_query_used [OF h, of "[0x61, 0x62, 0x63]" sampleConfig
      "sampleCreate None (Some [sampleResource], None) None" "[0x39]" 0 noWindows] h tr ok
  show ?thesis by simp
qed

subsection \<open>Response assembly\<close>

text \<open>
  C7. In a success response, the entries of \<open>resources\<close> are the fetched records in
  order; each entry's \<open>url\<close> is the storage collaborator's public URL of the record's
  storage path, and its id, title, description and type are the record's.
\<close>

theorem answer_links:
  assumes "body (resp (askJiji cfg create rid now req st)) = AnswerBody r a ls"
  shows "\<exists>q found.
           validate (queryOf req) = Inr q \<and>
           resources_select (buildSupabaseClient create cfg (hdr_authorization req)) (searchFilter q) 5 =
             (found, None) \<and>
           length ls = length (case found of None \<Rightarrow> [] | Some l \<Rightarrow> l) \<and>
           (\<forall>i < length ls.
              url (ls ! i) =
                storage_getPublicUrl (buildSupabaseClient create cfg (hdr_authorization req))
                  (storage_path ((case found of None \<Rightarrow> [] | Some l \<Rightarrow> l) ! i)) \<and>
              l_id (ls ! i) = r_id ((case found of None \<Rightarrow> [] | Some l \<Rightarrow> l) ! i) \<and>
              l_title (ls ! i) = r_title ((case found of None \<Rightarrow> [] | Some l \<Rightarrow> l) ! i) \<and>
              l_description (ls ! i) = r_description ((case found of None \<Rightarrow> [] | Some l \<Rightarrow> l) ! i) \<and>
              l_type (ls ! i) = r_type ((case found of None \<Rightarrow> [] | Some l \<Rightarrow> l) ! i))"
proof (cases cfg create rid now req st rule: askJiji_cases)
  case (authorized q u)
  show ?thesis
  proof (cases "buildSupabaseClient create cfg (hdr_authorization req)" rid u q
          rule: fetchAndAnswer_cases)
    case (success found)
    have "ls = resourcesWithLinks (buildSupabaseClient create cfg (hdr_authorization req))
                 (case found of None \<Rightarrow> [] | Some l \<Rightarrow> l)"
      using assms by (simp add: authorized(6) success(4))
    then show ?thesis
      using authorized(2) success(2)
      by (intro exI [of _ q] exI [of _ found]) (simp add: resourcesWithLinks_def)
  qed (use assms in \<open>simp_all add: authorized(6) failure_def\<close>)
qed (use assms in \<open>simp_all add: failure_def\<close>)

theorem answer_links_witness:
  "body (resp (askJiji sampleConfig (sampleCreate None (Some [sampleResource], None) None) [0x39] 0
                 (sampleRequest (Some [0x74]) (JStr [0x61, 0x62, 0x63])) noWindows)) =
     AnswerBody [0x39] (responseText [0x61, 0x62, 0x63])
       [\<lparr>l_id = JStr [0x37], l_title = JStr [0x52, 0x41, 0x47], l_description = JNull,
         l_type = JStr [0x70, 0x70, 0x74], url = [0x2F, 0x61, 0x2E, 0x62]\<rparr>] \<and>
   (\<exists>q found.
      resources_select
        (buildSupabaseClient (sampleCreate None (Some [sampleResource], None) None) sampleConfig
           (hdr_authorization (sampleRequest (Some [0x74]) (JStr [0x61, 0x62, 0x63]))))
        (searchFilter q) 5 = (found, None) \<and>
      length (case found of None \<Rightarrow> [] | Some l \<Rightarrow> l) = 1)"
proof -
  have h: "body (resp (askJiji sampleConfig (sampleCreate None (Some [sampleResource], None) None)
                         [0x39] 0 (sampleRequest (Some [0x74]) (JStr [0x61, 0x62, 0x63])) noWindows)) =
     AnswerBody [0x39] (responseText [0x61, 0x62, 0x63])
       [\<lparr>l_id = JStr [0x37], l_title = JStr [0x52, 0x41, 0x47], l_description = JNull,
         l_type = JStr [0x70, 0x70, 0x74], url = [0x2F, 0x61, 0x2E, 0x62]\<rparr>]"
    by (simp add: run_defs)
  from answer_links [OF h] obtain q found where
    "resources_select
        (buildSupabaseClient (sampleCreate None (Some [sampleResource], None) None) sampleConfig
           (hdr_authorization (sampleRequest (Some [0x74]) (JStr [0x61, 0x62, 0x63]))))
        (searchFilter q) 5 = (found, None)"
    "length [\<lparr>l_id = JStr [0x37], l_title = JStr [0x52, 0x41, 0x47], l_description = JNull,
         l_type = JStr [0x70, 0x70, 0x74], url = [0x2F::16 word, 0x61, 0x2E, 0x62]\<rparr>] =
     length (case found of None \<Rightarrow> [] | Some l \<Rightarrow> l)"
    by blast
  then have "\<exists>q found.
      resources_select
        (buildSupabaseClient (sampleCreate None (Some [sampleResource], None) None) sampleConfig
           (hdr_authorization (sampleRequest (Some [0x74]) (JStr [0x61, 0x62, 0x63]))))
        (searchFilter q) 5 = (found, None) \<and>
      length (case found of None \<Rightarrow> [] | Some l \<Rightarrow> l) = 1"
    by (intro exI [of _ q] exI [of _ found]) simp
  with h show ?thesis by blast
qed

subsection \<open>Headers and bodies of every response\<close>

text \<open>
  C8, as stated: every response from POST /ask-jiji carries the header \<open>X-Request-Id\<close>.
  It fails for a request that the JSON body parser of line 15 rejects: the handler, whose
  first statements generate the identifier and set the header, is not run, and the 400
  that Express's error handler sends has no such header.
\<close>

theorem parser_rejection_counterexample:
  "status (resp (postAskJiji sampleConfig (sampleCreate None (Some [], None) None) [0x39] 0
                   (BodyRejected 400) noWindows)) = 400 \<and>
   map_of (headers (resp (postAskJiji sampleConfig (sampleCreate None (Some [], None) None) [0x39] 0
                            (BodyRejected 400) noWindows))) ''X-Request-Id'' = None"
  by (simp add: postAskJiji_def)

text \<open>
  C8, amended: every response that the handler of POST /ask-jiji produces, on each of
  its exits (success, rate limited, invalid input, misconfigured, unauthorized,
  downstream failure), carries the header \<open>X-Request-Id\<close> with the identifier generated
  for this request, and a success body repeats that identifier as \<open>requestId\<close>; a
  request that the body parser rejects before the handler runs is answered without the
  header.
\<close>

theorem request_id_header:
  "map_of (headers (resp (postAskJiji cfg create rid now arr st))) ''X-Request-Id'' =
     (case arr of Delivered req \<Rightarrow> Some rid | BodyRejected code \<Rightarrow> None) \<and>
   (\<forall>req. arr = Delivered req \<longrightarrow>
      resp (postAskJiji cfg create rid now arr st) = resp (askJiji cfg create rid now req st) \<and>
      status (resp (askJiji cfg create rid now req st)) \<in> {200, 400, 401, 429, 500} \<and>
      map_of (headers (resp (askJiji cfg create rid now req st))) ''X-Request-Id'' = Some rid) \<and>
   (\<forall>r a ls. body (resp (postAskJiji cfg create rid now arr st)) = AnswerBody r a ls \<longrightarrow> r = rid)"
proof (cases arr)
  case (BodyRejected code)
  then show ?thesis by (simp add: postAskJiji_def)
next
  case (Delivered req)
  have "map_of (headers (resp (askJiji cfg create rid now req st))) ''X-Request-Id'' = Some rid \<and>
        status (resp (askJiji cfg create rid now req st)) \<in> {200, 400, 401, 429, 500} \<and>
        (\<forall>r a ls. body (resp (askJiji cfg create rid now req st)) = AnswerBody r a ls \<longrightarrow> r = rid)"
  proof (cases cfg create rid now req st rule: askJiji_cases)
    case (authorized q u)
    show ?thesis
      by (cases "buildSupabaseClient create cfg (hdr_authorization req)" rid u q
            rule: fetchAndAnswer_cases)
         (simp_all add: authorized(6) failure_def)
  qed (simp_all add: failure_def)
  with Delivered show ?thesis by (simp add: postAskJiji_def)
qed

theorem request_id_header_witness:
  "status (resp (postAskJiji sampleConfig (sampleCreate None (Some [], None) None) [0x39] 0
                   (Delivered (sampleRequest None (JNum 5))) noWindows)) = 400 \<and>
   map_of (headers (resp (postAskJiji sampleConfig (sampleCreate None (Some [], None) None) [0x39] 0
                            (Delivered (sampleRequest None (JNum 5))) noWindows))) ''X-Request-Id'' =
     Some [0x39]"
proof -
  have s: "status (resp (postAskJiji sampleConfig (sampleCreate None (Some [], None) None) [0x39] 0
                   (Delivered (sampleRequest None (JNum 5))) noWindows)) = 400"
    by (simp add: postAskJiji_def run_defs)
  from request_id_header [of sampleConfig "sampleCreate None (Some [], None) None" "[0x39]" 0
      "Delivered (sampleRequest None (JNum 5))" noWindows] s
  show ?thesis by simp
qed

text \<open>
  C9. In a failure body, \<open>details\<close> is present exactly for the three downstream failures
  (profile sync, resource fetch, query log), all of status 500, and absent exactly for
  the rate-limit, validation, misconfiguration and authentication failures.
\<close>

theorem details_only_downstream:
  assumes "body (resp (askJiji cfg create rid now req st)) = ErrorBody msg det"
  shows "(det \<noteq> None \<longleftrightarrow>
            msg \<in> {''Failed to sync profile.'', ''Failed to fetch resources.'', ''Failed to save query.''}) \<and>
         (det = None \<longleftrightarrow>
            msg \<in> {''Too many requests. Please retry later.'',
                   ''Query must be a non-empty string.'',
                   ''Query must be between 3 and 500 characters.'',
                   ''Server misconfiguration. Missing Supabase environment variables.'',
                   ''Unauthorized. Provide a valid Supabase JWT in the Authorization header.''}) \<and>
         (det \<noteq> None \<longrightarrow> status (resp (askJiji cfg create rid now req st)) = 500)"
proof (cases cfg create rid now req st rule: askJiji_cases)
  case (authorized q u)
  show ?thesis
    using assms
    by (cases "buildSupabaseClient create cfg (hdr_authorization req)" rid u q
          rule: fetchAndAnswer_cases)
       (auto simp add: authorized(6) failure_def)
next
  case (invalid m)
  have "m = ''Query must be a non-empty string.'' \<or> m = ''Query must be between 3 and 500 characters.''"
    using invalid(2) by (auto simp add: validate_def Let_def split: if_splits option.splits json.splits)
  then show ?thesis
    using assms invalid(3) by (auto simp add: failure_def)
qed (use assms in \<open>auto simp add: failure_def\<close>)

theorem details_only_downstream_witness:
  "body (resp (askJiji sampleConfig (sampleCreate None (Some [], None) (Some (SbError [0x71]))) [0x39] 0
                 (sampleRequest (Some [0x74]) (JStr [0x61, 0x62, 0x63])) noWindows)) =
     ErrorBody ''Failed to save query.'' (Some [0x71]) \<and>
   status (resp (askJiji sampleConfig (sampleCreate None (Some [], None) (Some (SbError [0x71]))) [0x39] 0
                   (sampleRequest (Some [0x74]) (JStr [0x61, 0x62, 0x63])) noWindows)) = 500"
proof -
  have h: "body (resp (askJiji sampleConfig (sampleCreate None (Some [], None) (Some (SbError [0x71])))
                         [0x39] 0 (sampleRequest (Some [0x74]) (JStr [0x61, 0x62, 0x63])) noWindows)) =
     ErrorBody ''Failed to save query.'' (Some [0x71])"
    by (simp add: run_defs)
  from details_only_downstream [OF h] h show ?thesis
    by simp
qed

subsection \<open>Requests without a client key\<close>

text \<open>
  C10. When the derived client key is absent or empty (the first X-Forwarded-For entry
  is missing or trims to nothing, and there is no peer address), the handler does not
  call the rate-limit check: the response is not 429 and the store is left as it was.
\<close>

theorem no_key_no_rate_limit:
  assumes "\<not> truthyStr (getClientIp req)"
  shows "status (resp (askJiji cfg create rid now req st)) \<noteq> 429 \<and>
         store_after (askJiji cfg create rid now req st) = st"
proof -
  have rc: "rateCheck now (getClientIp req) st = (False, st)"
    using assms by (simp add: rateCheck_def truthyStr_def split: option.splits)
  show ?thesis
  proof (cases cfg create rid now req st rule: askJiji_cases)
    case (authorized q u)
    show ?thesis
      by (cases "buildSupabaseClient create cfg (hdr_authorization req)" rid u q
            rule: fetchAndAnswer_cases)
         (simp_all add: authorized(6) failure_def rc)
  qed (simp_all add: failure_def rc)
qed

theorem no_key_no_rate_limit_witness:
  "\<not> truthyStr (getClientIp \<lparr>hdr_x_forwarded_for = Some [0x20, 0x2C, 0x31], hdr_authorization = None,
                              req_ip = None, req_body = None\<rparr>) \<and>
   store_after (askJiji sampleConfig (sampleCreate None (Some [], None) None) [0x39] 0
                  \<lparr>hdr_x_forwarded_for = Some [0x20, 0x2C, 0x31], hdr_authorization = None,
                   req_ip = None, req_body = None\<rparr>
                  [[0x31] \<mapsto> \<lparr>windowStart = 0, count = 30\<rparr>]) =
     [[0x31] \<mapsto> \<lparr>windowStart = 0, count = 30\<rparr>]"
proof -
  have h: "\<not> truthyStr (getClientIp \<lparr>hdr_x_forwarded_for = Some [0x20, 0x2C, 0x31],
                                      hdr_authorization = None, req_ip = None, req_body = None\<rparr>)"
    by (simp add: getClientIp_def truthyStr_def trim_def isWhiteSpace_def)
  from no_key_no_rate_limit [OF h] h show ?thesis
    by blast
qed

end
